theory Spec2Isabelle
  imports Main "HOL-Library.Sublist" "HOL-Library.Multiset"
begin

section \<open>PodcastApp: a shallow embedding of script.js\<close>

text \<open>
  The page script is modelled function by function. A JavaScript string is the list of
  its code units, for strings whose code units are below 256 (ASCII and Latin-1): the
  character \<open>CHR n\<close> is the code unit \<open>n\<close>. Numbers that the script only uses as
  integers (identifiers, episode counts, millisecond time values) are integers.
  A \<open>Date\<close> object is its time value: \<open>Some t\<close> for \<open>t\<close> milliseconds since the epoch,
  \<open>None\<close> for the time value NaN of an Invalid Date. A JavaScript number that may be
  NaN, such as a popularity score or the result of a comparator, is an \<open>int option\<close> in
  the same way. A \<open>TypeError\<close> that the script can throw is a value of a sum type.
  Arrays of podcasts are objects with an identity: they live in a store and the pipeline
  functions take and return references. What the host provides and the script does not
  define (parsing a date string, formatting a date for the locale, building an ISO date
  for "n days ago") is a parameter.
\<close>

subsection \<open>Host string operations\<close>

text \<open>White space and line terminators of ECMAScript among the code units below 256:
  TAB, LF, VT, FF, CR, SP and NBSP.\<close>

definition isWhiteSpace :: "char \<Rightarrow> bool" where
  "isWhiteSpace c = (of_char c \<in> set [9, 10, 11, 12, 13, 32, 160 :: nat])"

text \<open>\<open>String.prototype.trim\<close>: white space is removed from both ends.\<close>

definition String_trim :: "string \<Rightarrow> string" where
  "String_trim s = rev (dropWhile isWhiteSpace (rev (dropWhile isWhiteSpace s)))"

text \<open>The lower-case mapping of Unicode on one code unit below 256: the capital letters
  are U+0041 to U+005A and U+00C0 to U+00DE without the multiplication sign U+00D7, and
  the small letter of each is 32 code units further.\<close>

definition toLowerChar :: "char \<Rightarrow> char" where
  "toLowerChar c =
     (let n = (of_char c :: nat) in
      if (65 \<le> n \<and> n \<le> 90) \<or> (192 \<le> n \<and> n \<le> 222 \<and> n \<noteq> 215)
      then char_of (n + 32) else c)"

text \<open>\<open>String.prototype.toLowerCase\<close>: every code unit is mapped.\<close>

definition toLowerCase :: "string \<Rightarrow> string" where
  "toLowerCase s = map toLowerChar s"

text \<open>\<open>String.prototype.includes\<close>: the argument occurs at some position of the string.\<close>

fun String_includes :: "string \<Rightarrow> string \<Rightarrow> bool" where
  "String_includes [] q = (q = [])"
| "String_includes (c # cs) q = (prefix q (c # cs) \<or> String_includes cs q)"

text \<open>\<open>Array.prototype.join\<close> on an array of strings.\<close>

fun Array_join :: "string list \<Rightarrow> string \<Rightarrow> string" where
  "Array_join [] sep = []"
| "Array_join [x] sep = x"
| "Array_join (x # y # ys) sep = x @ sep @ Array_join (y # ys) sep"

text \<open>\<open>Array.prototype.includes\<close> on an array of strings.\<close>

definition Array_includes :: "string list \<Rightarrow> string \<Rightarrow> bool" where
  "Array_includes xs x = (x \<in> set xs)"

fun digits :: "nat \<Rightarrow> string" where
  "digits n =
     (if n < 10 then [''0123456789'' ! n]
      else digits (n div 10) @ [''0123456789'' ! (n mod 10)])"

declare digits.simps [simp del]

text \<open>The string that a template literal inserts for an integer-valued number, and
  for NaN. The decimal digits are what JavaScript prints for an integer below
  \<open>10\<^sup>2\<^sup>1\<close>; the script prints day, week, season and episode counts only.\<close>

definition Number_toString :: "int option \<Rightarrow> string" where
  "Number_toString v =
     (case v of
        None \<Rightarrow> ''NaN''
      | Some i \<Rightarrow> if i < 0 then ''-'' @ digits (nat (- i)) else digits (nat i))"

subsection \<open>The Podcast class\<close>

record season =
  s_title :: string
  s_description :: "string option"
  s_episodes :: nat

datatype js_error = TypeError

text \<open>The value of the \<open>updated\<close> property of a raw object: absent (\<open>undefined\<close>),
  \<open>null\<close>, a boolean, a number (given by its integer part, \<open>None\<close> for NaN and the
  infinities), a string, a \<open>Date\<close> (given by its time value), a symbol or a BigInt.\<close>

datatype raw_updated =
    UUndefined | UNull | UBoolean bool | UNumber "int option" | UString string
  | UDate "int option" | USymbol | UBigInt int

text \<open>The raw object \<open>o\<close> handed to the constructor. Its \<open>seasons\<close> property is
  \<open>None\<close> when it is absent or is not an array. Its \<open>popularity\<close> is a number, \<open>None\<close>
  when it is NaN or absent (the comparator's subtraction makes NaN of both).\<close>

record raw_podcast =
  o_id :: int
  o_title :: string
  o_cover :: string
  o_description :: string
  o_genres :: "string list"
  o_seasons :: "season list option"
  o_updated :: raw_updated
  o_popularity :: "int option"

text \<open>A constructed \<open>Podcast\<close>. The field \<open>pid\<close> is the property \<open>id\<close>.\<close>

record podcast =
  pid :: int
  title :: string
  cover :: string
  description :: string
  genres :: "string list"
  seasons :: "season list"
  updated :: "int option"
  popularity :: "int option"

text \<open>\<open>TimeClip\<close>: a time value is a finite number of at most \<open>8.64 * 10\<^sup>1\<^sup>5\<close>
  milliseconds from the epoch, anything else is NaN.\<close>

definition TimeClip :: "int option \<Rightarrow> int option" where
  "TimeClip n =
     (case n of None \<Rightarrow> None
      | Some i \<Rightarrow> if \<bar>i\<bar> \<le> 8640000000000000 then Some i else None)"

text \<open>\<open>new Date(v)\<close>: a string is parsed by the host (\<open>None\<close> when it is not a date),
  a \<open>Date\<close> is copied, any other value is converted to a number: \<open>undefined\<close> to NaN,
  \<open>null\<close> to 0, \<open>true\<close> to 1, \<open>false\<close> to 0. The conversion of a symbol or a BigInt
  throws.\<close>

definition Date_new :: "(string \<Rightarrow> int option) \<Rightarrow> raw_updated \<Rightarrow> js_error + int option" where
  "Date_new parse v =
     (case v of
        UUndefined \<Rightarrow> Inr None
      | UNull \<Rightarrow> Inr (TimeClip (Some 0))
      | UBoolean b \<Rightarrow> Inr (TimeClip (Some (if b then 1 else 0)))
      | UNumber n \<Rightarrow> Inr (TimeClip n)
      | UString s \<Rightarrow> Inr (parse s)
      | UDate t \<Rightarrow> Inr t
      | USymbol \<Rightarrow> Inl TypeError
      | UBigInt i \<Rightarrow> Inl TypeError)"

text \<open>The constructor: the properties of \<open>o\<close> are copied, \<open>updated\<close> is replaced by
  \<open>new Date(o.updated)\<close>, and \<open>seasons\<close> by the empty array when it is not an array.\<close>

definition Podcast_new :: "(string \<Rightarrow> int option) \<Rightarrow> raw_podcast \<Rightarrow> js_error + podcast" where
  "Podcast_new parse obj =
     (case Date_new parse (o_updated obj) of
        Inl e \<Rightarrow> Inl e
      | Inr t \<Rightarrow>
          Inr \<lparr> pid = o_id obj, title = o_title obj, cover = o_cover obj,
                description = o_description obj, genres = o_genres obj,
                seasons = (case o_seasons obj of None \<Rightarrow> [] | Some ss \<Rightarrow> ss),
                updated = t,
                popularity = o_popularity obj \<rparr>)"

definition getSeasonCount :: "podcast \<Rightarrow> nat" where
  "getSeasonCount p = length (seasons p)"

text \<open>\<open>getLastUpdatedHuman\<close>, with \<open>Date.now()\<close> as the argument \<open>now\<close>. On an Invalid
  Date every comparison with NaN is false, so the last branch is taken.\<close>

definition getLastUpdatedHuman :: "int \<Rightarrow> podcast \<Rightarrow> string" where
  "getLastUpdatedHuman now p =
     (case updated p of
        None \<Rightarrow> ''Updated '' @ Number_toString None @ '' week'' @ '''' @ '' ago''
      | Some t \<Rightarrow>
          (let days = (now - t) div 86400000 in
           if days \<le> 0 then ''Updated today''
           else if days = 1 then ''Updated yesterday''
           else if days < 7 then ''Updated '' @ Number_toString (Some days) @ '' days ago''
           else (let weeks = days div 7 in
                 ''Updated '' @ Number_toString (Some weeks) @ '' week''
                   @ (if weeks > 1 then ''s'' else '''') @ '' ago'')))"

text \<open>\<open>getFullDate\<close>: the host formats the date for the locale.\<close>

definition getFullDate :: "(int option \<Rightarrow> string) \<Rightarrow> podcast \<Rightarrow> string" where
  "getFullDate fmt p = fmt (updated p)"

subsection \<open>The sample dataset\<close>

text \<open>An array literal: the elements are evaluated from left to right, and the first
  one that throws ends the evaluation.\<close>

fun Array_of :: "(js_error + 'a) list \<Rightarrow> js_error + 'a list" where
  "Array_of [] = Inr []"
| "Array_of (x # xs) =
     (case x of
        Inl e \<Rightarrow> Inl e
      | Inr v \<Rightarrow> (case Array_of xs of Inl e \<Rightarrow> Inl e | Inr vs \<Rightarrow> Inr (v # vs)))"

text \<open>\<open>SAMPLE_PODCASTS\<close>. The host's date parser and the script's \<open>daysAgoISO\<close> (which
  reads the clock and formats a date) are parameters.\<close>

definition SAMPLE_PODCASTS ::
  "(string \<Rightarrow> int option) \<Rightarrow> (nat \<Rightarrow> string) \<Rightarrow> js_error + podcast list" where
  \<open>SAMPLE_PODCASTS parse daysAgoISO =
   Array_of
    [ Podcast_new parse
        \<lparr> o_id = 1, o_title = ''Tech Talks Daily'',
          o_cover = ''https://picsum.photos/seed/tech1/600/400'',
          o_description = ''Deep dives into technology trends, AI, and digital transformation with expert interviews and case studies.'',
          o_genres = [''Technology'', ''Business''],
          o_seasons = Some
            [ \<lparr> s_title = ''Season 1: Getting Started'', s_description = Some ''Introduction to the fundamentals'', s_episodes = 12 \<rparr>,
              \<lparr> s_title = ''Season 2: Advanced Topics'', s_description = Some ''Deep dives into complex subjects'', s_episodes = 15 \<rparr>,
              \<lparr> s_title = ''Season 3: Industry Insights'', s_description = Some ''Expert perspectives and case studies'', s_episodes = 18 \<rparr>,
              \<lparr> s_title = ''Season 4: Future Trends'', s_description = Some ''What's coming next in tech'', s_episodes = 20 \<rparr> ],
          o_updated = UString ''2025-01-15'', o_popularity = Some 95 \<rparr>,
      Podcast_new parse
        \<lparr> o_id = 2, o_title = ''Crime Junkie'',
          o_cover = ''https://picsum.photos/seed/crime2/600/400'',
          o_description = ''True crime stories, investigations, and mysteries that keep you on the edge.'',
          o_genres = [''True Crime'', ''Mystery''],
          o_seasons = Some
            [ \<lparr> s_title = ''Season 1: Dark Stories'', s_description = Some ''Chilling cases that shocked the world'', s_episodes = 20 \<rparr>,
              \<lparr> s_title = ''Season 2: Cold Cases'', s_description = Some ''Unsolved crimes revisited'', s_episodes = 18 \<rparr> ],
          o_updated = UString (daysAgoISO 7), o_popularity = Some 88 \<rparr>,
      Podcast_new parse
        \<lparr> o_id = 3, o_title = ''Comedy Bang Bang'',
          o_cover = ''https://picsum.photos/seed/comedy3/600/400'',
          o_description = ''Improvised comedy and interviews with a rotating cast of characters.'',
          o_genres = [''Comedy'', ''Entertainment''],
          o_seasons = Some
            [ \<lparr> s_title = ''Season 1'', s_description = Some ''Sketches and bits'', s_episodes = 22 \<rparr> ],
          o_updated = UString (daysAgoISO 3), o_popularity = Some 82 \<rparr>,
      Podcast_new parse
        \<lparr> o_id = 4, o_title = ''How I Built This'',
          o_cover = ''https://picsum.photos/seed/biz4/600/400'',
          o_description = ''Founders tell the stories behind the movements they built.'',
          o_genres = [''Business'', ''Entrepreneurship''],
          o_seasons = Some
            [ \<lparr> s_title = ''Season 1'', s_description = Some ''Origin stories'', s_episodes = 18 \<rparr> ],
          o_updated = UString (daysAgoISO 5), o_popularity = Some 91 \<rparr>,
      Podcast_new parse
        \<lparr> o_id = 5, o_title = ''The Daily Meditation'',
          o_cover = ''https://picsum.photos/seed/med5/600/400'',
          o_description = ''Mindfulness practices and talks for everyday calm.'',
          o_genres = [''Health'', ''Lifestyle''],
          o_seasons = Some
            [ \<lparr> s_title = ''Season 1'', s_description = Some ''Breathe and relax'', s_episodes = 30 \<rparr> ],
          o_updated = UString (daysAgoISO 1), o_popularity = Some 70 \<rparr>,
      Podcast_new parse
        \<lparr> o_id = 6, o_title = ''Hardcore History'',
          o_cover = ''https://picsum.photos/seed/hist6/600/400'',
          o_description = ''Long-form explorations of pivotal moments and people.'',
          o_genres = [''History'', ''Education''],
          o_seasons = Some
            [ \<lparr> s_title = ''Season 1'', s_description = Some ''Ancient wars'', s_episodes = 10 \<rparr> ],
          o_updated = UString (daysAgoISO 4), o_popularity = Some 99 \<rparr>,
      Podcast_new parse
        \<lparr> o_id = 7, o_title = ''The Sports Desk'',
          o_cover = ''https://picsum.photos/seed/sports7/600/400'',
          o_description = ''Analysis and interviews from across the sports world.'',
          o_genres = [''Sports'', ''News''],
          o_seasons = Some
            [ \<lparr> s_title = ''Season 1'', s_description = Some ''Weekly recaps'', s_episodes = 24 \<rparr> ],
          o_updated = UString (daysAgoISO 6), o_popularity = Some 76 \<rparr>,
      Podcast_new parse
        \<lparr> o_id = 8, o_title = ''Curious Minds'',
          o_cover = ''https://picsum.photos/seed/sci8/600/400'',
          o_description = ''Science explained through engaging stories and experiments.'',
          o_genres = [''Science'', ''Nature''],
          o_seasons = Some
            [ \<lparr> s_title = ''Season 1'', s_description = Some ''Everyday science'', s_episodes = 16 \<rparr> ],
          o_updated = UString (daysAgoISO 8), o_popularity = Some 85 \<rparr> ]\<close>

subsection \<open>Arrays as objects in a store\<close>

text \<open>
  An array of podcasts is an object: a reference into a store of arrays. A new array
  gets the next free reference, so it is distinct from every array that exists. A
  reference that the store does not hold is not an array; calling an array method on
  it throws, which is the result \<open>None\<close>.
\<close>

type_synonym ref = nat
type_synonym store = "podcast list list"

text \<open>\<open>list.slice()\<close>: a new array with the same elements.\<close>

definition Array_slice :: "store \<Rightarrow> ref \<Rightarrow> (ref \<times> store) option" where
  "Array_slice h r = (if r < length h then Some (length h, h @ [h ! r]) else None)"

text \<open>\<open>list.filter(f)\<close>: a new array with the elements that pass, in their order.\<close>

definition Array_filter :: "(podcast \<Rightarrow> bool) \<Rightarrow> store \<Rightarrow> ref \<Rightarrow> (ref \<times> store) option" where
  "Array_filter f h r =
     (if r < length h then Some (length h, h @ [filter f (h ! r)]) else None)"

text \<open>The comparison that \<open>Array.prototype.sort\<close> makes with a comparator: its result,
  with NaN read as 0.\<close>

definition SortCompare :: "('a \<Rightarrow> 'a \<Rightarrow> int option) \<Rightarrow> 'a \<Rightarrow> 'a \<Rightarrow> int" where
  "SortCompare cmp x y = (case cmp x y of None \<Rightarrow> 0 | Some v \<Rightarrow> v)"

text \<open>\<open>Array.prototype.sort\<close> is a stable sort: the model is the insertion sort that
  puts an element before the first later element it does not have to follow. With a
  comparator that orders the elements consistently every stable sort gives this result.
  With one that does not (it returns NaN on some pairs) the language leaves the order to
  the engine; the model is then one such order.\<close>

fun insert_cmp :: "('a \<Rightarrow> 'a \<Rightarrow> int option) \<Rightarrow> 'a \<Rightarrow> 'a list \<Rightarrow> 'a list" where
  "insert_cmp cmp x [] = [x]"
| "insert_cmp cmp x (y # ys) =
     (if SortCompare cmp x y \<le> 0 then x # y # ys else y # insert_cmp cmp x ys)"

definition sort_cmp :: "('a \<Rightarrow> 'a \<Rightarrow> int option) \<Rightarrow> 'a list \<Rightarrow> 'a list" where
  "sort_cmp cmp xs = foldr (insert_cmp cmp) xs []"

text \<open>\<open>arr.sort(cmp)\<close> sorts the array in place and returns the same array.\<close>

definition Array_sort ::
  "(podcast \<Rightarrow> podcast \<Rightarrow> int option) \<Rightarrow> store \<Rightarrow> ref \<Rightarrow> (ref \<times> store) option" where
  "Array_sort cmp h r =
     (if r < length h then Some (r, h[r := sort_cmp cmp (h ! r)]) else None)"

subsection \<open>Filtering, sorting, search\<close>

text \<open>\<open>filterByGenre\<close>. The genre is \<open>None\<close> for a value that is not a string
  (\<open>undefined\<close>, \<open>null\<close>), which is falsy like the empty string.\<close>

definition filterByGenre :: "store \<Rightarrow> ref \<Rightarrow> string option \<Rightarrow> (ref \<times> store) option" where
  "filterByGenre h list genre =
     (case genre of
        None \<Rightarrow> Array_slice h list
      | Some g \<Rightarrow>
          if g = [] \<or> g = ''All Genres'' then Array_slice h list
          else Array_filter (\<lambda>p. Array_includes (genres p) g) h list)"

text \<open>\<open>new Date(d)\<close> for a \<open>Date\<close> \<open>d\<close> has the time value of \<open>d\<close>; the difference of
  two dates is the difference of their time values, NaN when one of them is NaN.\<close>

definition Date_minus :: "int option \<Rightarrow> int option \<Rightarrow> int option" where
  "Date_minus x y =
     (case x of None \<Rightarrow> None | Some a \<Rightarrow> (case y of None \<Rightarrow> None | Some b \<Rightarrow> Some (a - b)))"

text \<open>The difference of two numbers, NaN when one of them is NaN.\<close>

definition Number_minus :: "int option \<Rightarrow> int option \<Rightarrow> int option" where
  "Number_minus x y =
     (case x of None \<Rightarrow> None | Some a \<Rightarrow> (case y of None \<Rightarrow> None | Some b \<Rightarrow> Some (a - b)))"

definition by_popularity :: "podcast \<Rightarrow> podcast \<Rightarrow> int option" where
  "by_popularity a b = Number_minus (popularity b) (popularity a)"

definition by_updated :: "podcast \<Rightarrow> podcast \<Rightarrow> int option" where
  "by_updated a b = Date_minus (updated b) (updated a)"

definition sortList :: "store \<Rightarrow> ref \<Rightarrow> string \<Rightarrow> (ref \<times> store) option" where
  "sortList h list type =
     (case Array_slice h list of
        None \<Rightarrow> None
      | Some (arr, h1) \<Rightarrow>
          if type = ''Most Popular'' then Array_sort by_popularity h1 arr
          else if type = ''Newest'' then Array_sort by_updated h1 arr
          else Array_sort by_updated h1 arr)"

text \<open>\<open>applySearch\<close>. The query is \<open>None\<close> for a falsy value that is not a string.\<close>

definition applySearch :: "store \<Rightarrow> ref \<Rightarrow> string option \<Rightarrow> (ref \<times> store) option" where
  "applySearch h list q =
     (let query = toLowerCase (String_trim (case q of None \<Rightarrow> [] | Some s \<Rightarrow> s)) in
      if query = [] then Array_slice h list
      else Array_filter
             (\<lambda>p. String_includes (toLowerCase (title p)) query \<or>
                  String_includes (toLowerCase (Array_join (genres p) '' '')) query)
             h list)"

subsection \<open>Escaping and the modal's markup\<close>

text \<open>The object literal of \<open>escapeHtml\<close>: the entity for each of the five characters.\<close>

definition escapeTable :: "(char \<times> string) list" where
  \<open>escapeTable =
     [ (CHR ''&'', ''&amp;''), (CHR ''<'', ''&lt;''), (CHR ''>'', ''&gt;''),
       (CHR 0x22, ''&quot;''), (CHR 0x27, ''&#39;'') ]\<close>

text \<open>What \<open>replace\<close> puts for one character: a character of the class \<open>[&<>"']\<close> is
  looked up in the table (a missing key would insert \<open>undefined\<close>), any other is kept.\<close>

definition escapeChar :: "char \<Rightarrow> string" where
  "escapeChar c =
     (if c \<in> set [CHR ''&'', CHR ''<'', CHR ''>'', CHR 0x22, CHR 0x27]
      then (case map_of escapeTable c of None \<Rightarrow> ''undefined'' | Some e \<Rightarrow> e)
      else [c])"

text \<open>\<open>escapeHtml\<close>. The argument is \<open>None\<close> for a value that is not a string.\<close>

definition escapeHtml :: "string option \<Rightarrow> string" where
  "escapeHtml str = (case str of None \<Rightarrow> [] | Some s \<Rightarrow> concat (map escapeChar s))"

text \<open>\<open>s.description || ""\<close>: an absent or empty description is the empty string.\<close>

definition description_or_empty :: "string option \<Rightarrow> string" where
  "description_or_empty d = (case d of None \<Rightarrow> [] | Some x \<Rightarrow> if x = [] then [] else x)"

text \<open>The template literal of one genre tag.\<close>

definition genre_tag :: "string \<Rightarrow> string" where
  \<open>genre_tag g = ''<span class="tag">'' @ escapeHtml (Some g) @ ''</span>''\<close>

text \<open>The template literal of one season row, with its line breaks and indentation.\<close>

definition season_row :: "season \<Rightarrow> string" where
  \<open>season_row s =
     ''\<newline>          <li class="season-row">''
     @ ''\<newline>            <div class="season-meta">''
     @ ''\<newline>              <div class="season-title">'' @ escapeHtml (Some (s_title s)) @ ''</div>''
     @ ''\<newline>              <div class="season-desc">''
     @ escapeHtml (Some (description_or_empty (s_description s))) @ ''</div>''
     @ ''\<newline>            </div>''
     @ ''\<newline>            <span class="episodes-count">''
     @ Number_toString (Some (int (s_episodes s))) @ '' episodes</span>''
     @ ''\<newline>          </li>''
     @ ''\<newline>        ''\<close>

text \<open>The template literal of \<open>openModal\<close> as a function of its six substitutions:
  title, cover, description, genre tags, date, season rows.\<close>

definition modal_template ::
  "string \<Rightarrow> string \<Rightarrow> string \<Rightarrow> string \<Rightarrow> string \<Rightarrow> string \<Rightarrow> string" where
  \<open>modal_template t c d g u ss =
     ''\<newline>    <h2 id="modal-title" class="modal-title">'' @ t @ ''</h2>''
     @ ''\<newline>    <div class="modal-top">''
     @ ''\<newline>      <div class="modal-cover" style="background-image:''
     @ ''url('' @ [CHR 0x27] @ c @ [CHR 0x27] @ '')'' @ ''"></div>''
     @ ''\<newline>      <div>''
     @ ''\<newline>        <div class="section-title">Description</div>''
     @ ''\<newline>        <p class="description">'' @ d @ ''</p>''
     @ ''\<newline>''
     @ ''\<newline>        <div class="section-title">Genres</div>''
     @ ''\<newline>        <div class="modal-tags">''
     @ ''\<newline>          '' @ g
     @ ''\<newline>        </div>''
     @ ''\<newline>''
     @ ''\<newline>        <div class="modal-updated">Last updated: '' @ u @ ''</div>''
     @ ''\<newline>      </div>''
     @ ''\<newline>    </div>''
     @ ''\<newline>''
     @ ''\<newline>    <div class="seasons">''
     @ ''\<newline>      <h3>Seasons</h3>''
     @ ''\<newline>      <ul class="season-list">''
     @ ''\<newline>        '' @ ss
     @ ''\<newline>      </ul>''
     @ ''\<newline>    </div>''
     @ ''\<newline>  ''\<close>

text \<open>The string that \<open>openModal\<close> assigns to \<open>modalInner.innerHTML\<close>.\<close>

definition openModal_html :: "(int option \<Rightarrow> string) \<Rightarrow> podcast \<Rightarrow> string" where
  "openModal_html fmt p =
     modal_template
       (escapeHtml (Some (title p)))
       (cover p)
       (escapeHtml (Some (description p)))
       (Array_join (map genre_tag (genres p)) [])
       (getFullDate fmt p)
       (Array_join (map season_row (seasons p)) [])"

subsection \<open>The page\<close>

text \<open>What \<open>renderPodcasts\<close> sets on a card from the podcast: the cover's background
  image, the four texts, and the podcast that a click or Enter opens. Class names,
  roles and the accessible label are left out.\<close>

record card =
  cover_backgroundImage :: string
  title_text :: string
  meta_text :: string
  tags_text :: "string list"
  updated_text :: string
  opens :: podcast

datatype grid_child = EmptyState string | Card card

text \<open>The part of the document that the script reads and writes: the grid's children,
  the modal's class list and \<open>aria-hidden\<close> attribute, the content of the modal, the
  focused element (by id) and the named listeners for \<open>keydown\<close> on the document.
  A class list and a listener list hold no entry twice.\<close>

record page =
  grid_children :: "grid_child list"
  modal_classList :: "string list"
  modal_aria_hidden :: "string option"
  modalInner_innerHTML :: string
  activeElement :: "string option"
  document_keydown :: "string list"

text \<open>\<open>classList.add\<close> and \<open>addEventListener\<close> add an entry that is not there;
  \<open>classList.remove\<close> and \<open>removeEventListener\<close> take it out.\<close>

definition add_entry :: "string list \<Rightarrow> string \<Rightarrow> string list" where
  "add_entry xs x = (if x \<in> set xs then xs else xs @ [x])"

definition remove_entry :: "string list \<Rightarrow> string \<Rightarrow> string list" where
  "remove_entry xs x = filter (\<lambda>y. y \<noteq> x) xs"

definition card_of :: "int \<Rightarrow> podcast \<Rightarrow> card" where
  "card_of now p =
     \<lparr> cover_backgroundImage = ''url('' @ [CHR 0x27] @ cover p @ [CHR 0x27] @ '')'',
       title_text = title p,
       meta_text = Number_toString (Some (int (getSeasonCount p))) @ '' ''
                     @ (if getSeasonCount p = 1 then ''season'' else ''seasons''),
       tags_text = genres p,
       updated_text = getLastUpdatedHuman now p,
       opens = p \<rparr>"

definition renderPodcasts :: "int \<Rightarrow> podcast list \<Rightarrow> page \<Rightarrow> page" where
  "renderPodcasts now list s =
     (if list = [] then s\<lparr>grid_children := [EmptyState ''No podcasts match your filters.'']\<rparr>
      else s\<lparr>grid_children := map (\<lambda>p. Card (card_of now p)) list\<rparr>)"

definition showModal :: "page \<Rightarrow> page" where
  "showModal s =
     s\<lparr> modal_classList := add_entry (modal_classList s) ''show'',
        modal_aria_hidden := Some ''false'',
        activeElement := Some ''close-modal'',
        document_keydown := add_entry (document_keydown s) ''handleEscClose'' \<rparr>"

definition openModal :: "(int option \<Rightarrow> string) \<Rightarrow> podcast \<Rightarrow> page \<Rightarrow> page" where
  "openModal fmt p s = showModal (s\<lparr>modalInner_innerHTML := openModal_html fmt p\<rparr>)"

definition hideModal :: "page \<Rightarrow> page" where
  "hideModal s =
     s\<lparr> modal_classList := remove_entry (modal_classList s) ''show'',
        modal_aria_hidden := Some ''true'',
        modalInner_innerHTML := [],
        document_keydown := remove_entry (document_keydown s) ''handleEscClose'' \<rparr>"

definition handleEscClose :: "string \<Rightarrow> page \<Rightarrow> page" where
  "handleEscClose key s = (if key = ''Escape'' then hideModal s else s)"

subsection \<open>Notions used in the statements\<close>

text \<open>The characters that delimit markup in HTML text and attribute values.\<close>

definition markup_char :: "char \<Rightarrow> bool" where
  "markup_char c = (c \<in> set [CHR ''<'', CHR ''>'', CHR 0x22, CHR 0x27])"

text \<open>A podcast with every free-text field emptied: same cover, date and episode
  counts, as many genres and seasons.\<close>

definition blank_season :: "season \<Rightarrow> season" where
  "blank_season s = s\<lparr>s_title := [], s_description := None\<rparr>"

definition blank_text :: "podcast \<Rightarrow> podcast" where
  "blank_text p =
     p\<lparr> title := [], description := [], genres := map (\<lambda>g. []) (genres p),
        seasons := map blank_season (seasons p) \<rparr>"

text \<open>The overlay is closed: no \<open>show\<close> class, hidden from assistive technology, no
  detail content, no Escape handler on the document.\<close>

definition closed :: "page \<Rightarrow> bool" where
  "closed s =
     (''show'' \<notin> set (modal_classList s) \<and> modal_aria_hidden s = Some ''true'' \<and>
      modalInner_innerHTML s = [] \<and> ''handleEscClose'' \<notin> set (document_keydown s))"

text \<open>A list is in descending order of update time: of two records with valid dates,
  the later one in the list is not the newer one. An Invalid Date is not compared.\<close>

definition descending_by_updated :: "podcast list \<Rightarrow> bool" where
  "descending_by_updated xs =
     sorted_wrt (\<lambda>a b. case updated a of None \<Rightarrow> True
                       | Some x \<Rightarrow> (case updated b of None \<Rightarrow> True | Some y \<Rightarrow> y \<le> x)) xs"

text \<open>The same for the popularity: of two records whose popularity is a number, the
  later one in the list is not the more popular one. NaN is not compared.\<close>

definition descending_by_popularity :: "podcast list \<Rightarrow> bool" where
  "descending_by_popularity xs =
     sorted_wrt (\<lambda>a b. case popularity a of None \<Rightarrow> True
                       | Some x \<Rightarrow> (case popularity b of None \<Rightarrow> True | Some y \<Rightarrow> y \<le> x)) xs"

text \<open>The white space that trimming removes: the characters with the code units of
  TAB, LF, VT, FF, CR, the space and the no-break space.\<close>

definition white_space :: "char set" where
  "white_space = {c. (of_char c :: nat) \<in> {9, 10, 11, 12, 13, 32, 160}}"

text \<open>Lower case by the table of letters: each capital letter of the alphabet, and each
  accented capital of Latin-1 (U+00C0 to U+00DE without U+00D7), with its small letter.
  A string is put in lower case letter by letter; what is not in the table is kept.\<close>

definition capital_small :: "(char \<times> char) list" where
  "capital_small =
     zip ''ABCDEFGHIJKLMNOPQRSTUVWXYZ'' ''abcdefghijklmnopqrstuvwxyz'' @
     zip (map char_of ([192..<215] @ [216..<223 :: nat]))
         (map char_of ([224..<247] @ [248..<255 :: nat]))"

definition lower_case :: "string \<Rightarrow> string" where
  "lower_case s = map (\<lambda>c. case map_of capital_small c of None \<Rightarrow> c | Some d \<Rightarrow> d) s"

text \<open>The strings of a list written one after the other with a space between two
  neighbours.\<close>

definition space_joined :: "string list \<Rightarrow> string" where
  "space_joined gs = (case gs of [] \<Rightarrow> [] | g # r \<Rightarrow> g @ concat (map (\<lambda>x. CHR '' '' # x) r))"

subsection \<open>A concrete host for examples\<close>

text \<open>A date parser that knows the days of January 2025 (as UTC midnights), a clock
  that stands at 31 January 2025, the store that holds the sample dataset as its only
  array, and a page with the overlay closed.\<close>

definition example_parse :: "string \<Rightarrow> int option" where
  "example_parse =
     map_of (map (\<lambda>d. (''2025-01-'' @ digits (d div 10) @ digits (d mod 10),
                        1735689600000 + (int d - 1) * 86400000)) [1..<32])"

definition example_daysAgoISO :: "nat \<Rightarrow> string" where
  "example_daysAgoISO n = ''2025-01-'' @ digits ((31 - n) div 10) @ digits ((31 - n) mod 10)"

definition example_now :: int where
  "example_now = 1735689600000 + 30 * 86400000 + 43200000"

definition example_fmt :: "int option \<Rightarrow> string" where
  "example_fmt t = (case t of None \<Rightarrow> ''Invalid Date'' | Some v \<Rightarrow> Number_toString (Some v))"

definition example_store :: store where
  "example_store =
     (case SAMPLE_PODCASTS example_parse example_daysAgoISO of
        Inl e \<Rightarrow> [] | Inr ps \<Rightarrow> [ps])"

definition example_page :: page where
  "example_page =
     \<lparr> grid_children = [], modal_classList = [''modal''], modal_aria_hidden = Some ''true'',
       modalInner_innerHTML = [], activeElement = None, document_keydown = [''anonymous''] \<rparr>"

text \<open>A store whose only array holds three records, the second with a date string
  that is not a date.\<close>

definition example_store_invalid :: store where
  "example_store_invalid =
     (case Array_of
        [ Podcast_new example_parse
            \<lparr> o_id = 1, o_title = ''First'', o_cover = [], o_description = [], o_genres = [],
              o_seasons = Some [], o_updated = UString ''2025-01-01'', o_popularity = Some 0 \<rparr>,
          Podcast_new example_parse
            \<lparr> o_id = 2, o_title = ''Second'', o_cover = [], o_description = [], o_genres = [],
              o_seasons = Some [], o_updated = UString ''not a date'', o_popularity = Some 0 \<rparr>,
          Podcast_new example_parse
            \<lparr> o_id = 3, o_title = ''Third'', o_cover = [], o_description = [], o_genres = [],
              o_seasons = Some [], o_updated = UString ''2025-01-02'', o_popularity = Some 0 \<rparr> ]
      of Inl e \<Rightarrow> [] | Inr ps \<Rightarrow> [ps])"

text \<open>A store whose only array holds three records with the popularities 1, NaN
  and 2.\<close>

definition example_store_nan :: store where
  "example_store_nan =
     (case Array_of
        [ Podcast_new example_parse
            \<lparr> o_id = 1, o_title = ''First'', o_cover = [], o_description = [], o_genres = [],
              o_seasons = Some [], o_updated = UString ''2025-01-01'', o_popularity = Some 1 \<rparr>,
          Podcast_new example_parse
            \<lparr> o_id = 2, o_title = ''Second'', o_cover = [], o_description = [], o_genres = [],
              o_seasons = Some [], o_updated = UString ''2025-01-01'', o_popularity = None \<rparr>,
          Podcast_new example_parse
            \<lparr> o_id = 3, o_title = ''Third'', o_cover = [], o_description = [], o_genres = [],
              o_seasons = Some [], o_updated = UString ''2025-01-01'', o_popularity = Some 2 \<rparr> ]
      of Inl e \<Rightarrow> [] | Inr ps \<Rightarrow> [ps])"

text \<open>A store whose only array holds two records, titled "Ecole des Mines" with and
  without the accent on the capital E (U+00C9).\<close>

definition example_store_accents :: store where
  "example_store_accents =
     (case Array_of
        [ Podcast_new example_parse
            \<lparr> o_id = 1, o_title = CHR 0xC9 # ''cole des Mines'', o_cover = [],
              o_description = [], o_genres = [''Education'', ''Science''],
              o_seasons = Some [], o_updated = UString ''2025-01-01'', o_popularity = Some 1 \<rparr>,
          Podcast_new example_parse
            \<lparr> o_id = 2, o_title = ''Ecole des Mines'', o_cover = [],
              o_description = [], o_genres = [''Education'', ''History''],
              o_seasons = Some [], o_updated = UString ''2025-01-02'', o_popularity = Some 2 \<rparr> ]
      of Inl e \<Rightarrow> [] | Inr ps \<Rightarrow> [ps])"

section \<open>Auxiliary facts\<close>

lemma example_store_length: "length example_store = 1"
  by code_simp

lemma String_includes_sublist: "String_includes s q = sublist q s"
  by (induction s) (simp_all add: sublist_Cons_right)

lemma isWhiteSpace_white_space: "isWhiteSpace c = (c \<in> white_space)"
  by (simp add: isWhiteSpace_def white_space_def)

lemma Array_join_space: "Array_join gs '' '' = space_joined gs"
proof -
  have "Array_join (g # r) '' '' = g @ concat (map (\<lambda>x. CHR '' '' # x) r)" for g r
    by (induction r arbitrary: g) simp_all
  then show ?thesis
    by (cases gs) (simp_all add: space_joined_def)
qed

lemma trim_decomposition:
  "\<exists>pre post. q = pre @ String_trim q @ post \<and> set pre \<subseteq> white_space \<and> set post \<subseteq> white_space \<and>
      (String_trim q = [] \<or> (hd (String_trim q) \<notin> white_space \<and> last (String_trim q) \<notin> white_space))"
proof -
  let ?a = "takeWhile isWhiteSpace q"
  let ?r = "dropWhile isWhiteSpace q"
  let ?b = "rev (takeWhile isWhiteSpace (rev ?r))"
  let ?t = "rev (dropWhile isWhiteSpace (rev ?r))"
  have t: "String_trim q = ?t" by (simp add: String_trim_def)
  have r: "?r = ?t @ ?b"
    by (metis rev_append rev_rev_ident takeWhile_dropWhile_id)
  have q: "q = ?a @ ?t @ ?b" using r by (metis takeWhile_dropWhile_id)
  have a: "set ?a \<subseteq> white_space"
    by (auto dest: set_takeWhileD simp: isWhiteSpace_white_space)
  have b: "set ?b \<subseteq> white_space"
    by (auto dest: set_takeWhileD simp: isWhiteSpace_white_space)
  have ends: "hd ?t \<notin> white_space \<and> last ?t \<notin> white_space" if ne: "?t \<noteq> []"
  proof
    from ne have "dropWhile isWhiteSpace (rev ?r) \<noteq> []" by simp
    then have "\<not> isWhiteSpace (hd (dropWhile isWhiteSpace (rev ?r)))" by (rule hd_dropWhile)
    then show "last ?t \<notin> white_space"
      using ne by (simp add: last_rev isWhiteSpace_white_space)
    from ne r have rne: "?r \<noteq> []" by (metis append_is_Nil_conv)
    then have "\<not> isWhiteSpace (hd ?r)" by (rule hd_dropWhile)
    moreover have "hd ?r = hd ?t" using ne r by (metis hd_append2)
    ultimately show "hd ?t \<notin> white_space" by (simp add: isWhiteSpace_white_space)
  qed
  show ?thesis
    unfolding t using q a b ends by blast
qed

lemma toLowerChar_table:
  "\<forall>c. toLowerChar c = (case map_of capital_small c of None \<Rightarrow> c | Some d \<Rightarrow> d)"
  by code_simp

lemma toLowerCase_lower_case: "toLowerCase s = lower_case s"
  by (simp add: toLowerCase_def lower_case_def toLowerChar_table)

lemma Array_join_empty: "Array_join xs [] = concat xs"
  by (induction xs "[] :: string" rule: Array_join.induct) simp_all

lemma sorted_desc_adjacent:
  fixes f :: "'a \<Rightarrow> int"
  assumes "sorted (map (\<lambda>p. - f p) ys)" and "Suc i < length ys"
  shows "f (ys ! Suc i) \<le> f (ys ! i)"
proof -
  have "map (\<lambda>p. - f p) ys ! i \<le> map (\<lambda>p. - f p) ys ! Suc i"
    using assms by (intro sorted_nth_mono) simp_all
  with assms(2) show ?thesis by simp
qed

lemma stable_neg_key:
  fixes f :: "'a \<Rightarrow> int"
  shows "filter (\<lambda>p. f p = k) (sort_key (\<lambda>p. - f p) xs) = filter (\<lambda>p. f p = k) xs"
proof -
  have "filter (\<lambda>p. - f p = - k) (sort_key (\<lambda>p. - f p) xs) = filter (\<lambda>p. - f p = - k) xs"
    by (rule sort_key_stable)
  then show ?thesis by simp
qed

lemma sortList_slice:
  "list < length h \<Longrightarrow>
   sortList h list type =
     Some (length h, h @ [sort_cmp (if type = ''Most Popular'' then by_popularity else by_updated)
                            (h ! list)])"
  by (simp add: sortList_def Array_slice_def Array_sort_def nth_append)

lemma insert_cmp_by_popularity:
  "popularity x \<noteq> None \<Longrightarrow> \<forall>y\<in>set ys. popularity y \<noteq> None \<Longrightarrow>
   insert_cmp by_popularity x ys = insort_key (\<lambda>p. - the (popularity p)) x ys"
  by (induction ys) (auto simp: SortCompare_def by_popularity_def Number_minus_def)

lemma sort_cmp_by_popularity:
  "\<forall>y\<in>set xs. popularity y \<noteq> None \<Longrightarrow>
   sort_cmp by_popularity xs = sort_key (\<lambda>p. - the (popularity p)) xs"
proof (induction xs)
  case Nil
  show ?case by (simp add: sort_cmp_def)
next
  case (Cons x xs)
  then have ih: "sort_cmp by_popularity xs = sort_key (\<lambda>p. - the (popularity p)) xs" by simp
  have "\<forall>y\<in>set (sort_key (\<lambda>p. - the (popularity p)) xs). popularity y \<noteq> None"
    using Cons.prems by simp
  with Cons.prems ih show ?case
    by (simp add: sort_cmp_def sort_key_def insert_cmp_by_popularity)
qed

lemma SAMPLE_PODCASTS_popularity:
  "SAMPLE_PODCASTS parse daysAgoISO = Inr ps \<Longrightarrow>
   map popularity ps = [Some 95, Some 88, Some 82, Some 91, Some 70, Some 99, Some 76, Some 85] \<and>
   map pid (sort_cmp by_popularity ps) = [6, 1, 4, 2, 8, 3, 7, 5]"
  by (auto simp: SAMPLE_PODCASTS_def Podcast_new_def Date_new_def sort_cmp_def
      SortCompare_def by_popularity_def Number_minus_def)

lemma insert_cmp_by_updated:
  "updated x \<noteq> None \<Longrightarrow> \<forall>y\<in>set ys. updated y \<noteq> None \<Longrightarrow>
   insert_cmp by_updated x ys = insort_key (\<lambda>p. - the (updated p)) x ys"
  by (induction ys) (auto simp: SortCompare_def by_updated_def Date_minus_def)

lemma sort_cmp_by_updated:
  "\<forall>y\<in>set xs. updated y \<noteq> None \<Longrightarrow>
   sort_cmp by_updated xs = sort_key (\<lambda>p. - the (updated p)) xs"
proof (induction xs)
  case Nil
  show ?case by (simp add: sort_cmp_def)
next
  case (Cons x xs)
  then have ih: "sort_cmp by_updated xs = sort_key (\<lambda>p. - the (updated p)) xs" by simp
  have "\<forall>y\<in>set (sort_key (\<lambda>p. - the (updated p)) xs). updated y \<noteq> None"
    using Cons.prems by simp
  with Cons.prems ih show ?case
    by (simp add: sort_cmp_def sort_key_def insert_cmp_by_updated)
qed

lemma escapeChar_no_markup: "filter markup_char (escapeChar c) = []"
  by (simp add: escapeChar_def escapeTable_def markup_char_def)

lemma escapeHtml_no_markup: "filter markup_char (escapeHtml x) = []"
proof (cases x)
  case None
  then show ?thesis by (simp add: escapeHtml_def)
next
  case (Some s)
  have "filter markup_char (concat (map escapeChar s)) = []"
    by (induction s) (simp_all add: escapeChar_no_markup)
  with Some show ?thesis by (simp add: escapeHtml_def)
qed

lemma genre_tag_markup:
  \<open>filter markup_char (genre_tag g) = filter markup_char (''<span class="tag">'' @ ''</span>'')\<close>
  by (simp only: genre_tag_def filter_append escapeHtml_no_markup append_Nil)

lemma season_row_markup:
  "filter markup_char (season_row s) = filter markup_char (season_row (blank_season s))"
  by (cases s)
     (simp only: season_row_def blank_season_def filter_append escapeHtml_no_markup
        season.simps)

lemma genres_markup:
  "filter markup_char (concat (map genre_tag gs))
   = filter markup_char (concat (map genre_tag (map (\<lambda>g. []) gs)))"
  by (induction gs) (simp_all only: list.map concat.simps filter_append genre_tag_markup)

lemma seasons_markup:
  "filter markup_char (concat (map season_row ss))
   = filter markup_char (concat (map season_row (map blank_season ss)))"
  by (induction ss)
     (simp_all only: list.map concat.simps filter_append season_row_markup [symmetric])

lemma cover_context:
  "\<exists>pre post. \<forall>c. a1 @ t @ a2 @ a3 @ a4 @ u @ q @ c @ q @ v @ rest
      = pre @ u @ q @ c @ q @ v @ post"
  by (rule exI [of _ "a1 @ t @ a2 @ a3 @ a4"], rule exI [of _ rest]) simp

section \<open>The claims\<close>

text \<open>
  C1. For a genre string \<open>g\<close> that is not empty and not "All Genres", \<open>filterByGenre\<close>
  returns exactly the records whose genres contain \<open>g\<close>, in the order of the input; for
  the empty string and for "All Genres" it returns all records in their order. In both
  cases the result is a subsequence of the input, it is a new array, and the input array
  holds what it held.
\<close>

theorem filterByGenre_correct:
  assumes "list < length h"
  shows "case filterByGenre h list (Some g) of
           None \<Rightarrow> False
         | Some (out, h') \<Rightarrow>
             (g \<noteq> [] \<and> g \<noteq> ''All Genres'' \<longrightarrow>
                h' ! out = filter (\<lambda>p. g \<in> set (genres p)) (h ! list)) \<and>
             (g = [] \<or> g = ''All Genres'' \<longrightarrow> h' ! out = h ! list) \<and>
             subseq (h' ! out) (h ! list) \<and>
             out \<noteq> list \<and> h' ! list = h ! list"
  using assms
  by (simp add: filterByGenre_def Array_slice_def Array_filter_def Array_includes_def
      nth_append)

theorem filterByGenre_correct_witness:
  "0 < length example_store \<and>
   (case filterByGenre example_store 0 (Some ''Comedy'') of
      None \<Rightarrow> False
    | Some (out, h') \<Rightarrow>
        map pid (h' ! out) = [3] \<and> subseq (h' ! out) (example_store ! 0) \<and>
        out \<noteq> 0 \<and> h' ! 0 = example_store ! 0)"
proof -
  have len: "0 < length example_store"
    by (simp add: example_store_length)
  have ev: "case filterByGenre example_store 0 (Some ''Comedy'') of
              None \<Rightarrow> False | Some (out, h') \<Rightarrow> map pid (h' ! out) = [3]"
    by code_simp
  show ?thesis
    using filterByGenre_correct [OF len, of "''Comedy''"] ev len
    by (cases "filterByGenre example_store 0 (Some ''Comedy'')") (simp_all add: split_def)
qed

text \<open>
  C2. \<open>applySearch\<close> trims the query and puts it in lower case: the query is white space,
  then a text \<open>t\<close> that neither begins nor ends with white space, then white space. When
  \<open>t\<close> is empty all records are returned; otherwise exactly the records are kept whose
  title in lower case, or whose genres joined by a space and put in lower case, contain
  \<open>t\<close> in lower case as a substring. The result is in the order of the input.
\<close>

theorem applySearch_correct:
  assumes "list < length h"
  shows "case applySearch h list (Some q) of
           None \<Rightarrow> False
         | Some (out, h') \<Rightarrow>
             (\<exists>pre t post.
                q = pre @ t @ post \<and> set pre \<subseteq> white_space \<and> set post \<subseteq> white_space \<and>
                (t = [] \<or> (hd t \<notin> white_space \<and> last t \<notin> white_space)) \<and>
                (t = [] \<longrightarrow> h' ! out = h ! list) \<and>
                (t \<noteq> [] \<longrightarrow>
                   h' ! out =
                     filter (\<lambda>p. sublist (lower_case t) (lower_case (title p)) \<or>
                                 sublist (lower_case t) (lower_case (space_joined (genres p))))
                       (h ! list))) \<and>
             subseq (h' ! out) (h ! list)"
proof -
  let ?t = "String_trim q"
  let ?P = "\<lambda>p. sublist (lower_case ?t) (lower_case (title p)) \<or>
                 sublist (lower_case ?t) (lower_case (space_joined (genres p)))"
  let ?ys = "if ?t = [] then h ! list else filter ?P (h ! list)"
  have empty: "(lower_case ?t = []) = (?t = [])"
    by (simp add: lower_case_def)
  have res: "applySearch h list (Some q) = Some (length h, h @ [?ys])"
    using assms
    by (simp add: applySearch_def Array_slice_def Array_filter_def String_includes_sublist
        Let_def empty Array_join_space toLowerCase_lower_case)
  from trim_decomposition [of q] obtain pre post where
    dec: "q = pre @ ?t @ post" "set pre \<subseteq> white_space" "set post \<subseteq> white_space"
      "?t = [] \<or> (hd ?t \<notin> white_space \<and> last ?t \<notin> white_space)"
    by blast
  have body: "\<exists>pre t post.
        q = pre @ t @ post \<and> set pre \<subseteq> white_space \<and> set post \<subseteq> white_space \<and>
        (t = [] \<or> (hd t \<notin> white_space \<and> last t \<notin> white_space)) \<and>
        (t = [] \<longrightarrow> ?ys = h ! list) \<and>
        (t \<noteq> [] \<longrightarrow>
           ?ys = filter (\<lambda>p. sublist (lower_case t) (lower_case (title p)) \<or>
                             sublist (lower_case t) (lower_case (space_joined (genres p))))
                   (h ! list))"
    using dec by (intro exI [of _ pre] exI [of _ ?t] exI [of _ post]) simp
  have sub: "subseq ?ys (h ! list)" by simp
  show ?thesis
    unfolding res using body sub by (simp add: nth_append)
qed

theorem applySearch_correct_witness:
  "0 < length example_store \<and>
   String_trim (CHR 0xA0 # '' GY Bus'' @ [CHR 0x09]) = ''GY Bus'' \<and>
   toLowerCase ''GY Bus'' = ''gy bus'' \<and>
   (case applySearch example_store 0 (Some (CHR 0xA0 # '' GY Bus'' @ [CHR 0x09])) of
      None \<Rightarrow> False
    | Some (out, h') \<Rightarrow> map pid (h' ! out) = [1] \<and> subseq (h' ! out) (example_store ! 0)) \<and>
   (case applySearch example_store 0 (Some ''JUNKie'') of
      None \<Rightarrow> False
    | Some (out, h') \<Rightarrow> map pid (h' ! out) = [2]) \<and>
   (case applySearch example_store_accents 0 (Some (CHR 0xE9 # ''COLE'')) of
      None \<Rightarrow> False
    | Some (out, h') \<Rightarrow> map pid (h' ! out) = [1])"
proof -
  let ?q = "CHR 0xA0 # '' GY Bus'' @ [CHR 0x09]"
  have len: "0 < length example_store"
    by (simp add: example_store_length)
  have tr: "String_trim ?q = ''GY Bus''"
    by code_simp
  have lo: "toLowerCase ''GY Bus'' = ''gy bus''"
    by code_simp
  have ev: "case applySearch example_store 0 (Some ?q) of
              None \<Rightarrow> False | Some (out, h') \<Rightarrow> map pid (h' ! out) = [1]"
    by code_simp
  have ev2: "case applySearch example_store 0 (Some ''JUNKie'') of
              None \<Rightarrow> False | Some (out, h') \<Rightarrow> map pid (h' ! out) = [2]"
    by code_simp
  have ev3: "case applySearch example_store_accents 0 (Some (CHR 0xE9 # ''COLE'')) of
              None \<Rightarrow> False | Some (out, h') \<Rightarrow> map pid (h' ! out) = [1]"
    by code_simp
  have sub: "case applySearch example_store 0 (Some ?q) of
              None \<Rightarrow> False | Some (out, h') \<Rightarrow> subseq (h' ! out) (example_store ! 0)"
    using applySearch_correct [OF len, of ?q]
    by (cases "applySearch example_store 0 (Some ?q)") (simp_all add: split_def)
  show ?thesis
    using ev sub len tr lo ev2 ev3
    by (cases "applySearch example_store 0 (Some ?q)") (simp_all add: split_def)
qed

text \<open>
  C3, as stated, fails: a popularity that is NaN (or absent) makes the comparator return
  NaN for the pairs it is part of, the sort takes them as equal, and the result need not
  be in descending order. Here the popularities 1, NaN, 2 stay in this order.
\<close>

theorem sortList_nan_popularity_counterexample:
  "case sortList example_store_nan 0 ''Most Popular'' of
     None \<Rightarrow> False
   | Some (out, h') \<Rightarrow>
       map pid (h' ! out) = [1, 2, 3] \<and>
       map popularity (h' ! out) = [Some 1, None, Some 2] \<and>
       \<not> descending_by_popularity (h' ! out)"
  by code_simp

text \<open>
  C3, amended. \<open>sortList\<close> with "Most Popular" returns a new array. When the popularity
  of every record of the input is a number, it is a permutation of the input in which
  the popularity never increases from one element to the next, and records of equal
  popularity keep the order they had. On the sample dataset, whose popularities are
  95, 88, 82, 91, 70, 99, 76, 85, the ids come out as 6, 1, 4, 2, 8, 3, 7, 5.
\<close>

theorem sortList_most_popular:
  assumes "list < length h"
  shows "case sortList h list ''Most Popular'' of
           None \<Rightarrow> False
         | Some (out, h') \<Rightarrow>
             out \<noteq> list \<and>
             ((\<forall>p \<in> set (h ! list). popularity p \<noteq> None) \<longrightarrow>
                mset (h' ! out) = mset (h ! list) \<and>
                (\<forall>i. Suc i < length (h' ! out) \<longrightarrow>
                     the (popularity (h' ! out ! Suc i)) \<le> the (popularity (h' ! out ! i))) \<and>
                descending_by_popularity (h' ! out) \<and>
                (\<forall>k. filter (\<lambda>p. popularity p = Some k) (h' ! out)
                     = filter (\<lambda>p. popularity p = Some k) (h ! list))) \<and>
             (SAMPLE_PODCASTS parse daysAgoISO = Inr (h ! list) \<longrightarrow>
                map popularity (h ! list)
                  = [Some 95, Some 88, Some 82, Some 91, Some 70, Some 99, Some 76, Some 85] \<and>
                map pid (h' ! out) = [6, 1, 4, 2, 8, 3, 7, 5])"
proof -
  let ?zs = "sort_cmp by_popularity (h ! list)"
  have res: "sortList h list ''Most Popular'' = Some (length h, h @ [?zs])"
    using assms by (simp add: sortList_slice)
  have main: "mset ?zs = mset (h ! list) \<and>
        (\<forall>i. Suc i < length ?zs \<longrightarrow> the (popularity (?zs ! Suc i)) \<le> the (popularity (?zs ! i))) \<and>
        descending_by_popularity ?zs \<and>
        (\<forall>k. filter (\<lambda>p. popularity p = Some k) ?zs = filter (\<lambda>p. popularity p = Some k) (h ! list))"
    if valid: "\<forall>p \<in> set (h ! list). popularity p \<noteq> None"
  proof -
    let ?f = "\<lambda>p. the (popularity p)"
    let ?ys = "sort_key (\<lambda>p. - ?f p) (h ! list)"
    have eq: "?zs = ?ys"
      using valid by (rule sort_cmp_by_popularity)
    have srt0: "sorted (map (\<lambda>p. - ?f p) ?ys)" by (rule sorted_sort_key)
    have adj: "\<forall>i. Suc i < length ?ys \<longrightarrow> ?f (?ys ! Suc i) \<le> ?f (?ys ! i)"
    proof (intro allI impI)
      fix i
      assume "Suc i < length ?ys"
      with srt0 show "?f (?ys ! Suc i) \<le> ?f (?ys ! i)"
        by (rule sorted_desc_adjacent [where f = ?f])
    qed
    from srt0 have srt: "sorted_wrt (\<lambda>a b. ?f b \<le> ?f a) ?ys"
      by (simp add: sorted_map)
    have vys: "\<forall>p \<in> set ?ys. popularity p \<noteq> None" using valid by simp
    have desc: "descending_by_popularity ?ys"
      unfolding descending_by_popularity_def
      by (rule sorted_wrt_mono_rel [OF _ srt]) (auto split: option.splits)
    have stab: "filter (\<lambda>p. popularity p = Some k) ?ys
                  = filter (\<lambda>p. popularity p = Some k) (h ! list)" for k
    proof -
      have a: "filter (\<lambda>p. popularity p = Some k) ?ys = filter (\<lambda>p. ?f p = k) ?ys"
        using vys by (intro filter_cong) auto
      have b: "filter (\<lambda>p. popularity p = Some k) (h ! list) = filter (\<lambda>p. ?f p = k) (h ! list)"
        using valid by (intro filter_cong) auto
      show ?thesis unfolding a b by (rule stable_neg_key)
    qed
    show ?thesis unfolding eq using adj stab desc by simp
  qed
  have data: "SAMPLE_PODCASTS parse daysAgoISO = Inr (h ! list) \<longrightarrow>
                map popularity (h ! list)
                  = [Some 95, Some 88, Some 82, Some 91, Some 70, Some 99, Some 76, Some 85] \<and>
                map pid ?zs = [6, 1, 4, 2, 8, 3, 7, 5]"
    using SAMPLE_PODCASTS_popularity by blast
  show ?thesis
    unfolding res using assms main data by (simp add: nth_append)
qed

theorem sortList_most_popular_witness:
  "0 < length example_store \<and>
   SAMPLE_PODCASTS example_parse example_daysAgoISO = Inr (example_store ! 0) \<and>
   map popularity (example_store ! 0)
     = [Some 95, Some 88, Some 82, Some 91, Some 70, Some 99, Some 76, Some 85] \<and>
   (case sortList example_store 0 ''Most Popular'' of
      None \<Rightarrow> False
    | Some (out, h') \<Rightarrow>
        map pid (h' ! out) = [6, 1, 4, 2, 8, 3, 7, 5] \<and>
        map popularity (h' ! out)
          = [Some 99, Some 95, Some 91, Some 88, Some 85, Some 82, Some 76, Some 70] \<and>
        mset (h' ! out) = mset (example_store ! 0) \<and>
        descending_by_popularity (h' ! out))"
proof -
  have len: "0 < length example_store"
    by (simp add: example_store_length)
  have dat: "SAMPLE_PODCASTS example_parse example_daysAgoISO = Inr (example_store ! 0)"
    by (cases "SAMPLE_PODCASTS example_parse example_daysAgoISO")
       (simp_all add: example_store_def SAMPLE_PODCASTS_def Podcast_new_def Date_new_def)
  have pop: "map popularity (example_store ! 0)
     = [Some 95, Some 88, Some 82, Some 91, Some 70, Some 99, Some 76, Some 85]"
    by code_simp
  have "\<forall>t \<in> set (map popularity (example_store ! 0)). t \<noteq> None"
    unfolding pop by simp
  then have valid: "\<forall>p \<in> set (example_store ! 0). popularity p \<noteq> None"
    by simp
  have ev: "case sortList example_store 0 ''Most Popular'' of
              None \<Rightarrow> False
            | Some (out, h') \<Rightarrow> map popularity (h' ! out)
                = [Some 99, Some 95, Some 91, Some 88, Some 85, Some 82, Some 76, Some 70]"
    by code_simp
  show ?thesis
    using sortList_most_popular [OF len, of example_parse example_daysAgoISO] ev len dat valid pop
    by (cases "sortList example_store 0 ''Most Popular''") (simp_all add: split_def)
qed

text \<open>
  C4, as stated, fails: with an Invalid Date in the list the comparator returns NaN for
  the pairs it is part of, the sort takes them as equal, and the result need not be in
  descending order. Here a record of 1 January stays before a record of 2 January.
\<close>

theorem sortList_invalid_date_counterexample:
  "case sortList example_store_invalid 0 ''Newest'' of
     None \<Rightarrow> False
   | Some (out, h') \<Rightarrow>
       map pid (h' ! out) = [1, 2, 3] \<and>
       map updated (h' ! out) = [Some 1735689600000, None, Some 1735776000000] \<and>
       \<not> descending_by_updated (h' ! out)"
  by code_simp

text \<open>
  C4, amended. \<open>sortList\<close> gives the same result for "Newest", for "Recently Updated"
  and for every mode other than "Most Popular". When every record of the input has a
  valid date, this result is a permutation of the input in descending order of update
  time, records of equal time in the order they had.
\<close>

theorem sortList_newest_default:
  assumes "list < length h"
  shows "(type \<noteq> ''Most Popular'' \<longrightarrow> sortList h list type = sortList h list ''Newest'') \<and>
         sortList h list ''Recently Updated'' = sortList h list ''Newest'' \<and>
         (case sortList h list ''Newest'' of
            None \<Rightarrow> False
          | Some (out, h') \<Rightarrow>
              ((\<forall>p \<in> set (h ! list). updated p \<noteq> None) \<longrightarrow>
                 mset (h' ! out) = mset (h ! list) \<and>
                 descending_by_updated (h' ! out) \<and>
                 sorted_wrt (\<lambda>a b. the (updated b) \<le> the (updated a)) (h' ! out) \<and>
                 (\<forall>k. filter (\<lambda>p. updated p = Some k) (h' ! out)
                      = filter (\<lambda>p. updated p = Some k) (h ! list))))"
proof -
  have same: "type \<noteq> ''Most Popular'' \<longrightarrow> sortList h list type = sortList h list ''Newest''"
    by (simp add: sortList_def split: option.splits)
  have same2: "sortList h list ''Recently Updated'' = sortList h list ''Newest''"
    by (simp add: sortList_def split: option.splits)
  have res: "sortList h list ''Newest'' = Some (length h, h @ [sort_cmp by_updated (h ! list)])"
    using assms by (simp add: sortList_slice)
  have main: "mset (sort_cmp by_updated (h ! list)) = mset (h ! list) \<and>
        descending_by_updated (sort_cmp by_updated (h ! list)) \<and>
        sorted_wrt (\<lambda>a b. the (updated b) \<le> the (updated a)) (sort_cmp by_updated (h ! list)) \<and>
        (\<forall>k. filter (\<lambda>p. updated p = Some k) (sort_cmp by_updated (h ! list))
              = filter (\<lambda>p. updated p = Some k) (h ! list))"
    if valid: "\<forall>p \<in> set (h ! list). updated p \<noteq> None"
  proof -
    let ?f = "\<lambda>p. the (updated p)"
    let ?ys = "sort_key (\<lambda>p. - ?f p) (h ! list)"
    have eq: "sort_cmp by_updated (h ! list) = ?ys"
      using valid by (rule sort_cmp_by_updated)
    have "sorted (map (\<lambda>p. - ?f p) ?ys)" by (rule sorted_sort_key)
    then have srt: "sorted_wrt (\<lambda>a b. ?f b \<le> ?f a) ?ys"
      by (simp add: sorted_map)
    have vys: "\<forall>p \<in> set ?ys. updated p \<noteq> None" using valid by simp
    have desc: "descending_by_updated ?ys"
      unfolding descending_by_updated_def
      by (rule sorted_wrt_mono_rel [OF _ srt]) (auto split: option.splits)
    have stab: "filter (\<lambda>p. updated p = Some k) ?ys = filter (\<lambda>p. updated p = Some k) (h ! list)"
      for k
    proof -
      have a: "filter (\<lambda>p. updated p = Some k) ?ys = filter (\<lambda>p. ?f p = k) ?ys"
        using vys by (intro filter_cong) auto
      have b: "filter (\<lambda>p. updated p = Some k) (h ! list) = filter (\<lambda>p. ?f p = k) (h ! list)"
        using valid by (intro filter_cong) auto
      show ?thesis unfolding a b by (rule stable_neg_key)
    qed
    show ?thesis unfolding eq using srt stab desc by simp
  qed
  show ?thesis
    unfolding res using same same2 res main by (simp add: nth_append)
qed

theorem sortList_newest_default_witness:
  "0 < length example_store \<and> ''Oldest'' \<noteq> ''Most Popular'' \<and>
   map updated (example_store ! 0) =
      [Some 1736899200000, Some 1737676800000, Some 1738022400000, Some 1737849600000,
       Some 1738195200000, Some 1737936000000, Some 1737763200000, Some 1737590400000] \<and>
   sortList example_store 0 ''Oldest'' = sortList example_store 0 ''Newest'' \<and>
   (case sortList example_store 0 ''Newest'' of
      None \<Rightarrow> False
    | Some (out, h') \<Rightarrow>
        map pid (h' ! out) = [5, 3, 6, 4, 7, 2, 8, 1] \<and>
        sorted_wrt (\<lambda>a b. the (updated b) \<le> the (updated a)) (h' ! out))"
proof -
  have len: "0 < length example_store"
    by (simp add: example_store_length)
  have ne: "''Oldest'' \<noteq> ''Most Popular''" by simp
  have upd: "map updated (example_store ! 0) =
      [Some 1736899200000, Some 1737676800000, Some 1738022400000, Some 1737849600000,
       Some 1738195200000, Some 1737936000000, Some 1737763200000, Some 1737590400000]"
    by code_simp
  have "\<forall>t \<in> set (map updated (example_store ! 0)). t \<noteq> None"
    unfolding upd by simp
  then have valid: "\<forall>p \<in> set (example_store ! 0). updated p \<noteq> None"
    by simp
  have ev: "case sortList example_store 0 ''Newest'' of
              None \<Rightarrow> False | Some (out, h') \<Rightarrow> map pid (h' ! out) = [5, 3, 6, 4, 7, 2, 8, 1]"
    by code_simp
  show ?thesis
    using sortList_newest_default [OF len, of "''Oldest''"] ev len valid upd
    by (cases "sortList example_store 0 ''Newest''") (simp_all add: split_def)
qed

text \<open>
  C5. Every free-text field that \<open>openModal\<close> writes into the markup (title,
  description, genre names, season titles and descriptions) goes through \<open>escapeHtml\<close>,
  whose result holds no character that delimits markup. So the markup delimiters of
  the generated string are those of the same podcast with all these fields emptied:
  the field values add none.
\<close>

theorem openModal_escapes:
  "filter markup_char (escapeHtml (Some x)) = [] \<and>
   filter markup_char (openModal_html fmt p)
     = filter markup_char (openModal_html fmt (blank_text p))"
proof -
  have "filter markup_char (openModal_html fmt p)
     = filter markup_char (openModal_html fmt (blank_text p))"
    by (cases p)
       (simp only: openModal_html_def modal_template_def Array_join_empty blank_text_def
          getFullDate_def filter_append escapeHtml_no_markup genres_markup [symmetric]
          seasons_markup [symmetric] podcast.simps)
  then show ?thesis by (simp only: escapeHtml_no_markup simp_thms)
qed

text \<open>
  C6. For a record with a valid date, the string of \<open>getLastUpdatedHuman\<close> is a
  function of the whole days \<open>d\<close> between the date and now: "Updated today" for
  \<open>d \<le> 0\<close>, "Updated yesterday" for \<open>d = 1\<close>, "Updated d days ago" for \<open>2 \<le> d \<le> 6\<close>,
  and for \<open>d \<ge> 7\<close> "Updated N week(s) ago" with \<open>N = d div 7\<close> and the plural exactly
  when \<open>N > 1\<close>; 10 days give "Updated 1 week ago", 15 days "Updated 2 weeks ago".
\<close>

theorem getLastUpdatedHuman_tiers:
  assumes "updated p = Some t" and "d = (now - t) div 86400000"
  shows "(d \<le> 0 \<longrightarrow> getLastUpdatedHuman now p = ''Updated today'') \<and>
         (d = 1 \<longrightarrow> getLastUpdatedHuman now p = ''Updated yesterday'') \<and>
         (2 \<le> d \<and> d \<le> 6 \<longrightarrow>
            getLastUpdatedHuman now p = ''Updated '' @ digits (nat d) @ '' days ago'') \<and>
         (7 \<le> d \<longrightarrow>
            getLastUpdatedHuman now p =
              ''Updated '' @ digits (nat (d div 7)) @ '' week''
                @ (if 1 < d div 7 then ''s'' else []) @ '' ago'') \<and>
         (d = 10 \<longrightarrow> getLastUpdatedHuman now p = ''Updated 1 week ago'') \<and>
         (d = 15 \<longrightarrow> getLastUpdatedHuman now p = ''Updated 2 weeks ago'')"
proof -
  have d1: "digits (Suc 0) = ''1''" and d2: "digits 2 = ''2''"
    by (simp_all add: digits.simps)
  have t1: "d \<le> 0 \<longrightarrow> getLastUpdatedHuman now p = ''Updated today''"
    using assms by (simp add: getLastUpdatedHuman_def)
  have t2: "d = 1 \<longrightarrow> getLastUpdatedHuman now p = ''Updated yesterday''"
    using assms by (simp add: getLastUpdatedHuman_def)
  have t3: "2 \<le> d \<and> d \<le> 6 \<longrightarrow>
            getLastUpdatedHuman now p = ''Updated '' @ digits (nat d) @ '' days ago''"
    using assms by (simp add: getLastUpdatedHuman_def Number_toString_def)
  have t4: "7 \<le> d \<longrightarrow>
            getLastUpdatedHuman now p =
              ''Updated '' @ digits (nat (d div 7)) @ '' week''
                @ (if 1 < d div 7 then ''s'' else []) @ '' ago''"
  proof
    assume w: "7 \<le> d"
    then have nn: "\<not> d div 7 < 0"
      by (simp add: not_less pos_imp_zdiv_nonneg_iff)
    from w nn assms(1) assms(2) [symmetric] show "getLastUpdatedHuman now p =
              ''Updated '' @ digits (nat (d div 7)) @ '' week''
                @ (if 1 < d div 7 then ''s'' else []) @ '' ago''"
      by (simp add: getLastUpdatedHuman_def Number_toString_def Let_def)
  qed
  have t5: "d = 10 \<longrightarrow> getLastUpdatedHuman now p = ''Updated 1 week ago''"
    using t4 by (simp add: d1)
  have t6: "d = 15 \<longrightarrow> getLastUpdatedHuman now p = ''Updated 2 weeks ago''"
    using t4 by (simp add: d2)
  from t1 t2 t3 t4 t5 t6 show ?thesis by blast
qed

theorem getLastUpdatedHuman_tiers_witness:
  "updated (example_store ! 0 ! 0) = Some 1736899200000 \<and>
   (16 :: int) = (example_now - 1736899200000) div 86400000 \<and>
   getLastUpdatedHuman example_now (example_store ! 0 ! 0) = ''Updated 2 weeks ago''"
proof -
  have u: "updated (example_store ! 0 ! 0) = Some 1736899200000"
    by code_simp
  have d: "(16 :: int) = (example_now - 1736899200000) div 86400000"
    by (simp add: example_now_def)
  have dg: "digits 2 = ''2''" by (simp add: digits.simps)
  show ?thesis
    using getLastUpdatedHuman_tiers [OF u d] u d by (simp add: dg)
qed




text \<open>
  C8. Closing after opening leaves the overlay closed (no \<open>show\<close> class, \<open>aria-hidden\<close>
  true, no content, no Escape handler), in a state that does not depend on the record
  opened; from a closed page, the page is the one before opening except that the
  focus is on the close button. Closing a closed overlay changes nothing, and closing
  twice is closing once.
\<close>

theorem hideModal_round_trip:
  "closed (hideModal (openModal fmt r s)) \<and>
   hideModal (openModal fmt r s) = hideModal (openModal fmt r' s) \<and>
   (closed s \<longrightarrow> hideModal (openModal fmt r s) = s\<lparr>activeElement := Some ''close-modal''\<rparr>) \<and>
   (closed s \<longrightarrow> hideModal s = s) \<and>
   hideModal (hideModal s) = hideModal s"
proof -
  have rm_add: "remove_entry (add_entry xs x) x = remove_entry xs x" for xs :: "string list" and x :: string
    by (simp add: remove_entry_def add_entry_def)
  have rm_id: "x \<notin> set xs \<Longrightarrow> remove_entry xs x = xs" for xs :: "string list" and x :: string
    by (auto simp: remove_entry_def filter_id_conv)
  have rm_not: "x \<notin> set (remove_entry xs x)" for xs :: "string list" and x :: string
    by (simp add: remove_entry_def)
  have c1: "closed (hideModal (openModal fmt r s))"
    by (simp add: closed_def hideModal_def rm_not)
  have c2: "hideModal (openModal fmt r s) = hideModal (openModal fmt r' s)"
    by (simp add: hideModal_def openModal_def showModal_def)
  have c3: "closed s \<longrightarrow> hideModal (openModal fmt r s) = s\<lparr>activeElement := Some ''close-modal''\<rparr>"
    by (simp add: closed_def hideModal_def openModal_def showModal_def rm_add rm_id)
  have c4: "closed s \<longrightarrow> hideModal s = s"
    by (simp add: closed_def hideModal_def rm_id)
  have c5: "hideModal (hideModal s) = hideModal s"
    by (simp add: hideModal_def rm_id rm_not)
  from c1 c2 c3 c4 c5 show ?thesis by blast
qed

theorem hideModal_round_trip_witness:
  "closed example_page \<and>
   hideModal example_page = example_page \<and>
   hideModal (openModal example_fmt (example_store ! 0 ! 0) example_page)
     = example_page\<lparr>activeElement := Some ''close-modal''\<rparr> \<and>
   \<not> closed (openModal example_fmt (example_store ! 0 ! 0) example_page)"
proof -
  have c: "closed example_page"
    by (simp add: closed_def example_page_def)
  have o: "\<not> closed (openModal example_fmt (example_store ! 0 ! 0) example_page)"
    by (simp add: closed_def openModal_def showModal_def example_page_def add_entry_def)
  show ?thesis
    using hideModal_round_trip [of example_fmt "example_store ! 0 ! 0" example_page] c o
    by simp
qed

text \<open>
  C9. None of \<open>filterByGenre\<close>, \<open>applySearch\<close>, \<open>sortList\<close> changes its input: each
  returns an array that did not exist before, so it is not the input, and the input
  and every other array of the store hold what they held. The sort works in place on
  the copy.
\<close>

theorem pipeline_no_mutation:
  assumes "list < length h"
  shows "(case filterByGenre h list genre of
            None \<Rightarrow> False
          | Some (out, h') \<Rightarrow>
              out \<noteq> list \<and> \<not> out < length h \<and> h' ! list = h ! list \<and> take (length h) h' = h) \<and>
         (case applySearch h list q of
            None \<Rightarrow> False
          | Some (out, h') \<Rightarrow>
              out \<noteq> list \<and> \<not> out < length h \<and> h' ! list = h ! list \<and> take (length h) h' = h) \<and>
         (case sortList h list type of
            None \<Rightarrow> False
          | Some (out, h') \<Rightarrow>
              out \<noteq> list \<and> \<not> out < length h \<and> h' ! list = h ! list \<and> take (length h) h' = h)"
proof -
  have f: "case filterByGenre h list genre of
            None \<Rightarrow> False
          | Some (out, h') \<Rightarrow>
              out \<noteq> list \<and> \<not> out < length h \<and> h' ! list = h ! list \<and> take (length h) h' = h"
    using assms
    by (simp add: filterByGenre_def Array_slice_def Array_filter_def nth_append
        split: option.splits)
  have a: "case applySearch h list q of
            None \<Rightarrow> False
          | Some (out, h') \<Rightarrow>
              out \<noteq> list \<and> \<not> out < length h \<and> h' ! list = h ! list \<and> take (length h) h' = h"
    using assms
    by (simp add: applySearch_def Array_slice_def Array_filter_def nth_append Let_def)
  have s: "case sortList h list type of
            None \<Rightarrow> False
          | Some (out, h') \<Rightarrow>
              out \<noteq> list \<and> \<not> out < length h \<and> h' ! list = h ! list \<and> take (length h) h' = h"
    using assms by (simp add: sortList_slice nth_append)
  from f a s show ?thesis by blast
qed

theorem pipeline_no_mutation_witness:
  "0 < length example_store \<and>
   (case sortList example_store 0 ''Most Popular'' of
      None \<Rightarrow> False
    | Some (out, h') \<Rightarrow>
        out = 1 \<and> map pid (h' ! out) = [6, 1, 4, 2, 8, 3, 7, 5] \<and>
        map pid (h' ! 0) = [1, 2, 3, 4, 5, 6, 7, 8] \<and> h' ! 0 = example_store ! 0)"
proof -
  have len: "0 < length example_store"
    by (simp add: example_store_length)
  have ev: "case sortList example_store 0 ''Most Popular'' of
              None \<Rightarrow> False
            | Some (out, h') \<Rightarrow> out = 1 \<and> map pid (h' ! out) = [6, 1, 4, 2, 8, 3, 7, 5] \<and>
                map pid (h' ! 0) = [1, 2, 3, 4, 5, 6, 7, 8]"
    by code_simp
  show ?thesis
    using pipeline_no_mutation [OF len, of None None "''Most Popular''"] ev len
    by (cases "sortList example_store 0 ''Most Popular''") (auto simp: split_def)
qed

text \<open>
  C10. The cover is put into the markup of the overlay and into the background image
  of a card as it is, inside \<open>url('...')\<close>, without escaping: whatever the cover is, the
  markup is the same text before and after it, and every markup delimiter of the cover
  is a markup delimiter of the result.
\<close>

theorem cover_verbatim:
  "(\<exists>pre post. \<forall>c. openModal_html fmt (p\<lparr>cover := c\<rparr>)
        = pre @ ''url('' @ [CHR 0x27] @ c @ [CHR 0x27] @ '')'' @ post) \<and>
   (\<forall>c. cover_backgroundImage (card_of now (p\<lparr>cover := c\<rparr>))
        = ''url('' @ [CHR 0x27] @ c @ [CHR 0x27] @ '')'') \<and>
   (\<forall>c. length (filter markup_char (openModal_html fmt (p\<lparr>cover := c\<rparr>)))
        = length (filter markup_char (openModal_html fmt (p\<lparr>cover := []\<rparr>)))
          + length (filter markup_char c))"
proof -
  have html: "openModal_html fmt (p\<lparr>cover := c\<rparr>) =
      modal_template (escapeHtml (Some (title p))) c (escapeHtml (Some (description p)))
        (Array_join (map genre_tag (genres p)) []) (getFullDate fmt p)
        (Array_join (map season_row (seasons p)) [])" for c
    by (simp add: openModal_html_def getFullDate_def)
  have ctx: "\<exists>pre post. \<forall>c. openModal_html fmt (p\<lparr>cover := c\<rparr>)
        = pre @ ''url('' @ [CHR 0x27] @ c @ [CHR 0x27] @ '')'' @ post"
    unfolding html modal_template_def by (rule cover_context)
  have card: "\<forall>c. cover_backgroundImage (card_of now (p\<lparr>cover := c\<rparr>))
        = ''url('' @ [CHR 0x27] @ c @ [CHR 0x27] @ '')''"
    by (simp add: card_of_def)
  from ctx obtain pre post where dec: "\<And>c. openModal_html fmt (p\<lparr>cover := c\<rparr>)
        = pre @ ''url('' @ [CHR 0x27] @ c @ [CHR 0x27] @ '')'' @ post"
    by blast
  have cnt: "\<forall>c. length (filter markup_char (openModal_html fmt (p\<lparr>cover := c\<rparr>)))
        = length (filter markup_char (openModal_html fmt (p\<lparr>cover := []\<rparr>)))
          + length (filter markup_char c)"
    unfolding dec by (simp only: filter_append length_append append_Nil) simp
  from ctx card cnt show ?thesis by blast
qed

end
